theory Spec2Isabelle
  imports Complex_Main "HOL-Library.AList" "HOL-Library.Char_ord" "HOL-Library.List_Lexorder"
    "HOL-Library.Product_Lexorder"
begin

section \<open>Strings\<close>

text \<open>
  Python strings are modelled as \<^typ>\<open>string\<close>, a list of 8-bit characters. The string
  methods used by the program are written out for the ASCII range: \<open>str.lower\<close> maps
  \<open>A\<close>..\<open>Z\<close> to \<open>a\<close>..\<open>z\<close>, and the whitespace of \<open>str.strip\<close> and \<open>str.split\<close> is the
  ASCII whitespace of \<open>str.isspace\<close> (codes 9 to 13, 28 to 31 and 32).
\<close>

definition is_space :: "char \<Rightarrow> bool" where
  "is_space c = (c \<in> set [CHR 0x09, CHR 0x0A, CHR 0x0B, CHR 0x0C, CHR 0x0D,
                            CHR 0x1C, CHR 0x1D, CHR 0x1E, CHR 0x1F, CHR 0x20])"

definition strip :: "string \<Rightarrow> string" where
  "strip s = rev (dropWhile is_space (rev (dropWhile is_space s)))"

definition lower_char :: "char \<Rightarrow> char" where
  "lower_char c =
     (case map_of (zip ''ABCDEFGHIJKLMNOPQRSTUVWXYZ'' ''abcdefghijklmnopqrstuvwxyz'') c of
        Some d \<Rightarrow> d
      | None \<Rightarrow> c)"

definition lower :: "string \<Rightarrow> string" where
  "lower s = map lower_char s"

text \<open>\<open>sep.join(parts)\<close>.\<close>

fun join :: "string \<Rightarrow> string list \<Rightarrow> string" where
  "join sep [] = []"
| "join sep [p] = p"
| "join sep (p # q # ps) = p @ sep @ join sep (q # ps)"

section \<open>Plan types (app/core/plan\_types.py)\<close>

definition ACCOUNT_PLAN_TYPES :: "string list" where
  "ACCOUNT_PLAN_TYPES =
     [''free'', ''plus'', ''pro'', ''team'', ''business'', ''enterprise'', ''edu'']"

text \<open>\<open>_clean_plan_type\<close>: \<open>None\<close> stays \<open>None\<close>; otherwise the value is stripped and
  \<open>cleaned or None\<close> turns the empty string into \<open>None\<close>.\<close>

definition clean_plan_type :: "string option \<Rightarrow> string option" where
  "clean_plan_type v =
     (case v of
        None \<Rightarrow> None
      | Some s \<Rightarrow> (let cleaned = strip s in if cleaned = [] then None else Some cleaned))"

text \<open>\<open>canonicalize_account_plan_type\<close>: \<open>not cleaned\<close> holds for \<open>None\<close> and for the empty
  string.\<close>

definition canonicalize_account_plan_type :: "string option \<Rightarrow> string option" where
  "canonicalize_account_plan_type v =
     (case clean_plan_type v of
        None \<Rightarrow> None
      | Some cleaned \<Rightarrow>
          if cleaned = [] then None
          else (let normalized = lower cleaned in
                if normalized \<in> set ACCOUNT_PLAN_TYPES then Some normalized else Some cleaned))"

definition coerce_account_plan_type :: "string option \<Rightarrow> string \<Rightarrow> string" where
  "coerce_account_plan_type v dflt =
     (case clean_plan_type v of
        None \<Rightarrow> dflt
      | Some cleaned \<Rightarrow>
          (case canonicalize_account_plan_type (Some cleaned) of
             Some canonical \<Rightarrow> canonical
           | None \<Rightarrow> dflt))"

section \<open>JSON values and Python dictionaries\<close>

text \<open>
  \<open>JsonValue\<close> of app/core/types.py. Python's \<open>None\<close> is \<open>JNull\<close>. A dictionary is an
  association list in insertion order: \<open>d.get(k)\<close> is \<open>py_get\<close> (absent keys give \<open>None\<close>),
  \<open>d[k] = v\<close> is \<^const>\<open>AList.update\<close> and \<open>d.pop(k, None)\<close> is \<^const>\<open>AList.delete\<close>.
\<close>

datatype json =
    JNull
  | JBool bool
  | JInt int
  | JFloat real
  | JStr string
  | JList "json list"
  | JObj "(string \<times> json) list"

datatype py_error = ValueError string | ValidationError string

definition py_get :: "(string \<times> json) list \<Rightarrow> string \<Rightarrow> json" where
  "py_get d k = (case map_of d k of None \<Rightarrow> JNull | Some v \<Rightarrow> v)"

definition has_key :: "(string \<times> json) list \<Rightarrow> string \<Rightarrow> bool" where
  "has_key d k = (map_of d k \<noteq> None)"

section \<open>Request coercion (app/core/openai/requests.py)\<close>

definition nonempty :: "string \<Rightarrow> bool" where
  "nonempty s = (s \<noteq> [])"

text \<open>\<open>_merge_instructions\<close>.\<close>

definition merge_instructions :: "string \<Rightarrow> string list \<Rightarrow> string" where
  "merge_instructions existing extra_parts =
     (if extra_parts = [] then existing
      else (let extra = join ''\<newline>'' (filter nonempty extra_parts) in
            if extra = [] then existing
            else if existing \<noteq> [] then existing @ ''\<newline>'' @ extra
            else extra))"

text \<open>One element of a list-valued \<open>content\<close>: a string is taken as it is, an object
  contributes its \<open>text\<close> entry when that is a string, anything else is skipped.\<close>

definition part_text :: "json \<Rightarrow> string list" where
  "part_text part =
     (case part of
        JStr s \<Rightarrow> [s]
      | JObj part_dict \<Rightarrow> (case py_get part_dict ''text'' of JStr t \<Rightarrow> [t] | _ \<Rightarrow> [])
      | _ \<Rightarrow> [])"

text \<open>\<open>_content_to_text\<close>.\<close>

definition content_to_text :: "json \<Rightarrow> string option" where
  "content_to_text content =
     (case content of
        JNull \<Rightarrow> None
      | JStr s \<Rightarrow> Some s
      | JList parts \<Rightarrow> Some (join ''\<newline>'' (filter nonempty (concat (map part_text parts))))
      | JObj content_dict \<Rightarrow> (case py_get content_dict ''text'' of JStr t \<Rightarrow> Some t | _ \<Rightarrow> None)
      | _ \<Rightarrow> None)"

text \<open>\<open>role = role_value if isinstance(role_value, str) else None\<close>.\<close>

definition message_role :: "(string \<times> json) list \<Rightarrow> string option" where
  "message_role message_dict =
     (case py_get message_dict ''role'' of JStr r \<Rightarrow> Some r | _ \<Rightarrow> None)"

text \<open>The loop over \<open>messages\<close> of \<open>_coerce_messages_payload\<close>, with its two accumulators
  \<open>instructions_parts\<close> and \<open>input_messages\<close>. A message that is not an object raises.\<close>

fun partition_messages ::
  "json list \<Rightarrow> string list \<Rightarrow> json list \<Rightarrow> py_error + (string list \<times> json list)" where
  "partition_messages [] instructions_parts input_messages =
     Inr (instructions_parts, input_messages)"
| "partition_messages (message # rest) instructions_parts input_messages =
     (case message of
        JObj message_dict \<Rightarrow>
          if message_role message_dict \<in> {Some ''system'', Some ''developer''} then
            (case content_to_text (py_get message_dict ''content'') of
               Some content_text \<Rightarrow>
                 if content_text \<noteq> []
                 then partition_messages rest (instructions_parts @ [content_text]) input_messages
                 else partition_messages rest instructions_parts input_messages
             | None \<Rightarrow> partition_messages rest instructions_parts input_messages)
          else partition_messages rest instructions_parts (input_messages @ [message])
      | _ \<Rightarrow> Inl (ValueError ''Each message must be an object.''))"

text \<open>\<open>_coerce_messages_payload\<close>.\<close>

definition coerce_messages_payload :: "json \<Rightarrow> py_error + json" where
  "coerce_messages_payload data =
     (case data of
        JObj data_dict \<Rightarrow>
          if \<not> has_key data_dict ''messages'' then Inr (JObj data_dict)
          else if py_get data_dict ''input'' \<notin> {JNull, JList []}
          then Inl (ValueError ''Provide either 'input' or 'messages', not both.'')
          else
            (case py_get data_dict ''messages'' of
               JList messages \<Rightarrow>
                 (case partition_messages messages [] [] of
                    Inl e \<Rightarrow> Inl e
                  | Inr (instructions_parts, input_messages) \<Rightarrow>
                      (let result = AList.update ''input'' (JList input_messages)
                                      (AList.delete ''messages'' data_dict)
                       in case py_get result ''instructions'' of
                            JStr existing_instructions \<Rightarrow>
                              if existing_instructions \<noteq> []
                              then Inr (JObj (AList.update ''instructions''
                                     (JStr (merge_instructions existing_instructions
                                              instructions_parts)) result))
                              else Inr (JObj (AList.update ''instructions''
                                     (JStr (join ''\<newline>'' (filter nonempty instructions_parts)))
                                     result))
                          | _ \<Rightarrow>
                              Inr (JObj (AList.update ''instructions''
                                     (JStr (join ''\<newline>'' (filter nonempty instructions_parts)))
                                     result))))
             | _ \<Rightarrow> Inl (ValueError ''messages must be a list.''))
      | _ \<Rightarrow> Inr data)"

section \<open>What the coercion is expected to produce\<close>

text \<open>
  These definitions state the intended result of the coercion with list functions:
  the messages whose role is \<open>system\<close> or \<open>developer\<close>, the text of a message, and the
  resulting instructions.
\<close>

definition is_object :: "json \<Rightarrow> bool" where
  "is_object j = (case j of JObj _ \<Rightarrow> True | _ \<Rightarrow> False)"

definition is_instruction_message :: "json \<Rightarrow> bool" where
  "is_instruction_message m =
     (case m of
        JObj message_dict \<Rightarrow> message_role message_dict \<in> {Some ''system'', Some ''developer''}
      | _ \<Rightarrow> False)"

definition message_text :: "json \<Rightarrow> string" where
  "message_text m =
     (case m of
        JObj message_dict \<Rightarrow>
          (case content_to_text (py_get message_dict ''content'') of Some t \<Rightarrow> t | None \<Rightarrow> [])
      | _ \<Rightarrow> [])"

definition expected_instructions :: "json \<Rightarrow> json list \<Rightarrow> string" where
  "expected_instructions existing messages =
     (let extra = join ''\<newline>''
                    (filter nonempty (map message_text (filter is_instruction_message messages)))
      in case existing of
           JStr e \<Rightarrow> if e \<noteq> [] \<and> extra \<noteq> [] then e @ ''\<newline>'' @ extra
                     else if e \<noteq> [] then e else extra
         | _ \<Rightarrow> extra)"

section \<open>Request validation and the outbound payload\<close>

text \<open>
  \<open>ResponsesRequest\<close> is a pydantic model with \<open>extra="allow"\<close>. Its validation is
  modelled as: the \<open>before\<close> validator \<open>_coerce_messages\<close>, then one check per declared
  field (an absent field takes its default), then the field validator
  \<open>_ensure_store_false\<close>. Any failure is a validation error. The nested models
  \<open>reasoning\<close> and \<open>text\<close> are kept as JSON objects. Booleans are validated in pydantic's
  lax mode. Keys that are not declared fields are kept in \<open>model_extra\<close>, and
  \<open>model_fields_set\<close> holds the declared fields present in the input.
  The record fields \<open>input_items\<close>, \<open>include_list\<close> and \<open>text_controls\<close> stand for the
  source's \<open>input\<close>, \<open>include\<close> and \<open>text\<close>.
\<close>

record ResponsesRequest =
  model :: string
  instructions :: string
  input_items :: "json list"
  tools :: "json list"
  tool_choice :: "string option"
  parallel_tool_calls :: "bool option"
  reasoning :: "json option"
  store :: bool
  stream :: "bool option"
  include_list :: "string list"
  prompt_cache_key :: "string option"
  text_controls :: "json option"
  model_extra :: "(string \<times> json) list"
  model_fields_set :: "string list"

definition v_str :: "json \<Rightarrow> string option" where
  "v_str j = (case j of JStr s \<Rightarrow> Some s | _ \<Rightarrow> None)"

definition v_list :: "json \<Rightarrow> json list option" where
  "v_list j = (case j of JList xs \<Rightarrow> Some xs | _ \<Rightarrow> None)"

definition v_str_list :: "json \<Rightarrow> string list option" where
  "v_str_list j =
     (case j of
        JList xs \<Rightarrow> if list_all (\<lambda>x. v_str x \<noteq> None) xs then Some (map (\<lambda>x. the (v_str x)) xs) else None
      | _ \<Rightarrow> None)"

definition v_bool :: "json \<Rightarrow> bool option" where
  "v_bool j =
     (case j of
        JBool b \<Rightarrow> Some b
      | JInt i \<Rightarrow> if i = 0 then Some False else if i = 1 then Some True else None
      | JFloat x \<Rightarrow> if x = 0 then Some False else if x = 1 then Some True else None
      | JStr s \<Rightarrow>
          if lower s \<in> set [''0'', ''off'', ''f'', ''false'', ''n'', ''no''] then Some False
          else if lower s \<in> set [''1'', ''on'', ''t'', ''true'', ''y'', ''yes''] then Some True
          else None
      | _ \<Rightarrow> None)"

definition v_object :: "json \<Rightarrow> json option" where
  "v_object j = (case j of JObj d \<Rightarrow> Some (JObj d) | _ \<Rightarrow> None)"

definition v_optional :: "(json \<Rightarrow> 'a option) \<Rightarrow> json \<Rightarrow> 'a option option" where
  "v_optional v j = (case j of JNull \<Rightarrow> Some None | _ \<Rightarrow> map_option Some (v j))"

definition field_or :: "(json \<Rightarrow> 'a option) \<Rightarrow> 'a \<Rightarrow> (string \<times> json) list \<Rightarrow> string \<Rightarrow> 'a option" where
  "field_or v dflt d k = (case map_of d k of None \<Rightarrow> Some dflt | Some j \<Rightarrow> v j)"

definition FIELD_NAMES :: "string list" where
  "FIELD_NAMES = [''model'', ''instructions'', ''input'', ''tools'', ''tool_choice'',
     ''parallel_tool_calls'', ''reasoning'', ''store'', ''stream'', ''include'',
     ''prompt_cache_key'', ''text'']"

definition validate_fields :: "(string \<times> json) list \<Rightarrow> py_error + ResponsesRequest" where
  "validate_fields d =
     (let f_model = (case map_of d ''model'' of
                       Some (JStr s) \<Rightarrow> if s = [] then None else Some s
                     | _ \<Rightarrow> None);
          f_instructions = field_or v_str [] d ''instructions'';
          f_input = field_or v_list [] d ''input'';
          f_tools = field_or v_list [] d ''tools'';
          f_tool_choice = field_or (v_optional v_str) None d ''tool_choice'';
          f_parallel = field_or (v_optional v_bool) None d ''parallel_tool_calls'';
          f_reasoning = field_or (v_optional v_object) None d ''reasoning'';
          f_store = field_or v_bool False d ''store'';
          f_stream = field_or (v_optional v_bool) None d ''stream'';
          f_include = field_or v_str_list [] d ''include'';
          f_cache_key = field_or (v_optional v_str) None d ''prompt_cache_key'';
          f_text = field_or (v_optional v_object) None d ''text''
      in if f_model = None \<or> f_instructions = None \<or> f_input = None \<or> f_tools = None
            \<or> f_tool_choice = None \<or> f_parallel = None \<or> f_reasoning = None
            \<or> f_store = None \<or> f_stream = None \<or> f_include = None
            \<or> f_cache_key = None \<or> f_text = None
         then Inl (ValidationError ''invalid request'')
         else if the f_store then Inl (ValidationError ''store must be false'')
         else Inr \<lparr> model = the f_model, instructions = the f_instructions,
                    input_items = the f_input, tools = the f_tools,
                    tool_choice = the f_tool_choice, parallel_tool_calls = the f_parallel,
                    reasoning = the f_reasoning, store = the f_store, stream = the f_stream,
                    include_list = the f_include, prompt_cache_key = the f_cache_key,
                    text_controls = the f_text,
                    model_extra = filter (\<lambda>(k, v). k \<notin> set FIELD_NAMES) d,
                    model_fields_set = filter (\<lambda>k. has_key d k) FIELD_NAMES \<rparr>)"

definition model_validate :: "json \<Rightarrow> py_error + ResponsesRequest" where
  "model_validate data =
     (case coerce_messages_payload data of
        Inl (ValueError msg) \<Rightarrow> Inl (ValidationError msg)
      | Inl e \<Rightarrow> Inl e
      | Inr (JObj d) \<Rightarrow> validate_fields d
      | Inr _ \<Rightarrow> Inl (ValidationError ''input should be an object''))"

definition UNSUPPORTED_UPSTREAM_FIELDS :: "string list" where
  "UNSUPPORTED_UPSTREAM_FIELDS = [''max_output_tokens'']"

text \<open>\<open>_strip_unsupported_fields\<close>: \<open>payload.pop(key, None)\<close> for every unsupported key.\<close>

definition strip_unsupported_fields :: "(string \<times> json) list \<Rightarrow> (string \<times> json) list" where
  "strip_unsupported_fields payload = fold AList.delete UNSUPPORTED_UPSTREAM_FIELDS payload"

definition opt_json :: "('a \<Rightarrow> json) \<Rightarrow> 'a option \<Rightarrow> json" where
  "opt_json f v = (case v of None \<Rightarrow> JNull | Some x \<Rightarrow> f x)"

text \<open>\<open>model_dump(mode="json", exclude_none=True)\<close>: the declared fields in declaration
  order, then the extra keys; entries whose value is \<open>None\<close> are left out.\<close>

definition model_dump :: "ResponsesRequest \<Rightarrow> (string \<times> json) list" where
  "model_dump r =
     filter (\<lambda>(k, v). v \<noteq> JNull)
       ([(''model'', JStr (model r)),
         (''instructions'', JStr (instructions r)),
         (''input'', JList (input_items r)),
         (''tools'', JList (tools r)),
         (''tool_choice'', opt_json JStr (tool_choice r)),
         (''parallel_tool_calls'', opt_json JBool (parallel_tool_calls r)),
         (''reasoning'', opt_json id (reasoning r)),
         (''store'', JBool (store r)),
         (''stream'', opt_json JBool (stream r)),
         (''include'', JList (map JStr (include_list r))),
         (''prompt_cache_key'', opt_json JStr (prompt_cache_key r)),
         (''text'', opt_json id (text_controls r))]
        @ model_extra r)"

text \<open>\<open>ResponsesRequest.to_payload\<close>.\<close>

definition to_payload :: "ResponsesRequest \<Rightarrow> (string \<times> json) list" where
  "to_payload r =
     (let payload = model_dump r;
          payload = (if ''store'' \<notin> set (model_fields_set r)
                     then AList.delete ''store'' payload else payload)
      in strip_unsupported_fields payload)"

section \<open>Accounts and the auth manager (app/modules/accounts/auth\_manager.py)\<close>

datatype AccountStatus = ACTIVE | RATE_LIMITED | QUOTA_EXCEEDED | PAUSED | DEACTIVATED

text \<open>The persistent account. \<open>acc_id\<close>, \<open>acc_email\<close>, \<open>acc_plan_type\<close>, \<open>acc_status\<close> and
  \<open>acc_deactivation_reason\<close> are the source's \<open>id\<close>, \<open>email\<close>, \<open>plan_type\<close>, \<open>status\<close> and
  \<open>deactivation_reason\<close>; \<open>last_refresh\<close> is a timestamp.\<close>

record Account =
  acc_id :: string
  acc_email :: string
  acc_plan_type :: string
  access_token_encrypted :: string
  refresh_token_encrypted :: string
  id_token_encrypted :: string
  last_refresh :: int
  acc_status :: AccountStatus
  acc_deactivation_reason :: "string option"

text \<open>\<open>RefreshError\<close> with its \<open>code\<close>, \<open>message\<close> and \<open>is_permanent\<close>, and the result of a
  successful token refresh.\<close>

record RefreshError =
  err_code :: string
  err_message :: string
  is_permanent :: bool

record TokenRefreshResult =
  res_access_token :: string
  res_refresh_token :: string
  res_id_token :: string
  res_plan_type :: "string option"
  res_email :: "string option"

text \<open>The repository port is modelled by the list of calls made to it.\<close>

datatype repo_call =
    UpdateStatus string AccountStatus "string option"
  | UpdateTokens string string string string int string string

text \<open>What \<open>refresh_account\<close> depends on: the token codec, the outcome of
  \<open>refresh_access_token\<close> as a function of the refresh token, the table
  \<open>PERMANENT_FAILURE_CODES\<close>, the default plan and the clock.\<close>

record auth_env =
  decrypt :: "string \<Rightarrow> string"
  encrypt :: "string \<Rightarrow> string"
  refresh_access_token :: "string \<Rightarrow> RefreshError + TokenRefreshResult"
  PERMANENT_FAILURE_CODES :: "string \<rightharpoonup> string"
  DEFAULT_PLAN :: string
  utcnow :: int

text \<open>\<open>AuthManager.refresh_account\<close>. The result holds the raised error (\<open>None\<close> when the
  call returns), the account as the call leaves it, and the repository calls.\<close>

definition refresh_account ::
  "auth_env \<Rightarrow> Account \<Rightarrow> repo_call list \<Rightarrow> RefreshError option \<times> Account \<times> repo_call list" where
  "refresh_account env account repo =
     (let refresh_token = decrypt env (refresh_token_encrypted account) in
      case refresh_access_token env refresh_token of
        Inl exc \<Rightarrow>
          if is_permanent exc then
            (let reason = (case PERMANENT_FAILURE_CODES env (err_code exc) of
                             Some r \<Rightarrow> r
                           | None \<Rightarrow> err_message exc)
             in (Some exc,
                 account\<lparr>acc_status := DEACTIVATED, acc_deactivation_reason := Some reason\<rparr>,
                 repo @ [UpdateStatus (acc_id account) DEACTIVATED (Some reason)]))
          else (Some exc, account, repo)
      | Inr result \<Rightarrow>
          (let account = account\<lparr>
                 access_token_encrypted := encrypt env (res_access_token result),
                 refresh_token_encrypted := encrypt env (res_refresh_token result),
                 id_token_encrypted := encrypt env (res_id_token result),
                 last_refresh := utcnow env\<rparr>;
               account =
                 (case res_plan_type result of
                    Some p \<Rightarrow> account\<lparr>acc_plan_type :=
                      coerce_account_plan_type (Some p)
                        (if acc_plan_type account \<noteq> [] then acc_plan_type account
                         else DEFAULT_PLAN env)\<rparr>
                  | None \<Rightarrow>
                      if acc_plan_type account = []
                      then account\<lparr>acc_plan_type := DEFAULT_PLAN env\<rparr>
                      else account);
               account =
                 (case res_email result of
                    Some e \<Rightarrow> if e \<noteq> [] then account\<lparr>acc_email := e\<rparr> else account
                  | None \<Rightarrow> account)
           in (None, account,
               repo @ [UpdateTokens (acc_id account) (access_token_encrypted account)
                         (refresh_token_encrypted account) (id_token_encrypted account)
                         (last_refresh account) (acc_plan_type account) (acc_email account)])))"

text \<open>\<open>AuthManager.ensure_fresh\<close>; \<open>should_refresh\<close> is a parameter.\<close>

definition ensure_fresh ::
  "auth_env \<Rightarrow> (int \<Rightarrow> bool) \<Rightarrow> Account \<Rightarrow> bool \<Rightarrow> repo_call list
     \<Rightarrow> RefreshError option \<times> Account \<times> repo_call list" where
  "ensure_fresh env should_refresh account force repo =
     (if force \<or> should_refresh (last_refresh account) then refresh_account env account repo
      else (None, account, repo))"

section \<open>Example inputs\<close>

definition example_env :: "RefreshError \<Rightarrow> auth_env" where
  "example_env exc =
     \<lparr>decrypt = rev, encrypt = rev, refresh_access_token = (\<lambda>_. Inl exc),
      PERMANENT_FAILURE_CODES = [''refresh_token_expired'' \<mapsto> ''Refresh token expired''],
      DEFAULT_PLAN = ''free'', utcnow = 1700000000\<rparr>"

definition example_account :: Account where
  "example_account =
     \<lparr>acc_id = ''acc_one'', acc_email = ''one@example.com'', acc_plan_type = ''plus'',
      access_token_encrypted = ''a'', refresh_token_encrypted = ''r'',
      id_token_encrypted = ''i'', last_refresh = 0, acc_status = ACTIVE,
      acc_deactivation_reason = None\<rparr>"

section \<open>OAuth client (app/core/clients/oauth.py)\<close>

text \<open>\<open>value or default\<close> for an optional string: \<open>None\<close> and the empty string are falsy.\<close>

definition str_or :: "string option \<Rightarrow> string \<Rightarrow> string" where
  "str_or v dflt = (case v of None \<Rightarrow> dflt | Some s \<Rightarrow> if s = [] then dflt else s)"

text \<open>\<open>s.rstrip("/")\<close>.\<close>

definition rstrip_slash :: "string \<Rightarrow> string" where
  "rstrip_slash s = rev (dropWhile (\<lambda>c. c = CHR ''/'') (rev s))"

text \<open>\<open>s.split()\<close>: the maximal runs of characters that are not whitespace.\<close>

fun split_aux :: "string \<Rightarrow> string \<Rightarrow> string list" where
  "split_aux [] cur = (if cur = [] then [] else [cur])"
| "split_aux (c # cs) cur =
     (if is_space c then (if cur = [] then split_aux cs [] else cur # split_aux cs [])
      else split_aux cs (cur @ [c]))"

definition split :: "string \<Rightarrow> string list" where
  "split s = split_aux s []"

text \<open>\<open>urllib.parse.quote\<close> with no safe characters, as \<open>urlencode\<close> calls it: letters,
  digits and \<open>_.-~\<close> are kept, every other byte becomes \<open>%XX\<close>.\<close>

definition hex_digit :: "nat \<Rightarrow> char" where
  "hex_digit n = ''0123456789ABCDEF'' ! (n mod 16)"

definition unreserved :: "char \<Rightarrow> bool" where
  "unreserved c =
     (c \<in> set ''ABCDEFGHIJKLMNOPQRSTUVWXYZabcdefghijklmnopqrstuvwxyz0123456789_.-~'')"

definition quote_char :: "char \<Rightarrow> string" where
  "quote_char c =
     (if unreserved c then [c]
      else [CHR ''%'', hex_digit (of_char c div 16), hex_digit (of_char c mod 16)])"

definition quote :: "string \<Rightarrow> string" where
  "quote s = concat (map quote_char s)"

text \<open>\<open>urlencode(params, quote_via=quote)\<close>.\<close>

definition urlencode :: "(string \<times> string) list \<Rightarrow> string" where
  "urlencode params = join ''&'' (map (\<lambda>(k, v). quote k @ ''='' @ quote v) params)"

record Settings =
  auth_base_url :: string
  oauth_client_id :: string
  oauth_redirect_uri :: string
  oauth_scope :: string

text \<open>\<open>_ensure_offline_access\<close>.\<close>

definition ensure_offline_access :: "string \<Rightarrow> string" where
  "ensure_offline_access scope =
     (if ''offline_access'' \<in> set (split scope) then scope else scope @ '' offline_access'')"

text \<open>\<open>authorization_scope = scope or _ensure_offline_access(settings.oauth_scope)\<close>.\<close>

definition authorization_scope :: "Settings \<Rightarrow> string option \<Rightarrow> string" where
  "authorization_scope settings scope =
     (case scope of
        None \<Rightarrow> ensure_offline_access (oauth_scope settings)
      | Some s \<Rightarrow> if s = [] then ensure_offline_access (oauth_scope settings) else s)"

text \<open>\<open>build_authorization_url\<close>.\<close>

definition build_authorization_url ::
  "Settings \<Rightarrow> string \<Rightarrow> string \<Rightarrow> string option \<Rightarrow> string option \<Rightarrow> string option
     \<Rightarrow> string option \<Rightarrow> string" where
  "build_authorization_url settings state code_challenge base_url client_id redirect_uri scope =
     (let auth_base = rstrip_slash (str_or base_url (auth_base_url settings));
          params =
            [(''response_type'', ''code''),
             (''client_id'', str_or client_id (oauth_client_id settings)),
             (''redirect_uri'', str_or redirect_uri (oauth_redirect_uri settings)),
             (''scope'', authorization_scope settings scope),
             (''code_challenge'', code_challenge),
             (''code_challenge_method'', ''S256''),
             (''state'', state),
             (''id_token_add_organizations'', ''true''),
             (''codex_cli_simplified_flow'', ''true''),
             (''originator'', ''codex_cli_rs'')];
          query = urlencode params
      in auth_base @ ''/oauth/authorize?'' @ query)"

text \<open>Decimal rendering of integers, as \<open>str\<close> and f-strings give it.\<close>

definition digit_char :: "nat \<Rightarrow> char" where
  "digit_char n = ''0123456789'' ! (n mod 10)"

fun dec_digits :: "nat \<Rightarrow> string" where
  "dec_digits n = (if n < 10 then [digit_char n] else dec_digits (n div 10) @ [digit_char (n mod 10)])"

declare dec_digits.simps [simp del]

definition str_int :: "int \<Rightarrow> string" where
  "str_int i = (if i < 0 then CHR ''-'' # dec_digits (nat (- i)) else dec_digits (nat i))"

text \<open>Python truth value of a JSON value.\<close>

definition truthy :: "json \<Rightarrow> bool" where
  "truthy j =
     (case j of
        JNull \<Rightarrow> False
      | JBool b \<Rightarrow> b
      | JInt i \<Rightarrow> i \<noteq> 0
      | JFloat x \<Rightarrow> x \<noteq> 0
      | JStr s \<Rightarrow> s \<noteq> []
      | JList xs \<Rightarrow> xs \<noteq> []
      | JObj d \<Rightarrow> d \<noteq> [])"

definition opt_truthy :: "string option \<Rightarrow> bool" where
  "opt_truthy v = (case v of None \<Rightarrow> False | Some s \<Rightarrow> s \<noteq> [])"

text \<open>\<open>OAuthTokenPayload\<close>, with the fields the client reads; \<open>p_error\<close> is a JSON value
  (\<open>JNull\<close> for \<open>None\<close>).\<close>

record OAuthTokenPayload =
  p_access_token :: "string option"
  p_refresh_token :: "string option"
  p_id_token :: "string option"
  p_authorization_code :: "string option"
  p_code_verifier :: "string option"
  p_error :: json
  p_error_description :: "string option"
  p_message :: "string option"
  p_error_code :: "string option"
  p_code :: "string option"
  p_status :: "string option"

record OAuthTokens =
  access_token :: string
  refresh_token :: string
  id_token :: string

record OAuthError =
  oe_code :: string
  oe_message :: string
  oe_status_code :: "int option"

text \<open>\<open>_extract_error_code\<close>, \<open>_extract_error_message\<close>, \<open>_oauth_error_from_payload\<close>,
  \<open>_is_pending_error\<close> and \<open>_parse_tokens\<close>.\<close>

definition extract_error_code :: "OAuthTokenPayload \<Rightarrow> string option" where
  "extract_error_code payload =
     (case p_error payload of
        JObj error \<Rightarrow>
          (let code = (if truthy (py_get error ''code'') then py_get error ''code''
                       else py_get error ''error'')
           in case code of JStr s \<Rightarrow> Some s | _ \<Rightarrow> None)
      | JStr error \<Rightarrow> Some error
      | _ \<Rightarrow> if opt_truthy (p_error_code payload) then p_error_code payload else p_code payload)"

definition extract_error_message :: "OAuthTokenPayload \<Rightarrow> string option" where
  "extract_error_message payload =
     (case p_error payload of
        JObj error \<Rightarrow>
          (let message = (if truthy (py_get error ''message'') then py_get error ''message''
                          else py_get error ''error_description'')
           in case message of JStr s \<Rightarrow> Some s | _ \<Rightarrow> None)
      | JStr error \<Rightarrow>
          if opt_truthy (p_error_description payload) then p_error_description payload
          else Some error
      | _ \<Rightarrow> p_message payload)"

definition oauth_error_from_payload :: "OAuthTokenPayload \<Rightarrow> int \<Rightarrow> OAuthError" where
  "oauth_error_from_payload payload status_code =
     \<lparr>oe_code = (if opt_truthy (extract_error_code payload) then the (extract_error_code payload)
                 else ''http_'' @ str_int status_code),
      oe_message = (if opt_truthy (extract_error_message payload)
                    then the (extract_error_message payload)
                    else ''OAuth request failed ('' @ str_int status_code @ '')''),
      oe_status_code = Some status_code\<rparr>"

definition is_pending_error :: "OAuthTokenPayload \<Rightarrow> bool" where
  "is_pending_error payload =
     (if extract_error_code payload \<in> {Some ''authorization_pending'', Some ''slow_down''}
      then True
      else (case p_status payload of
              Some status \<Rightarrow>
                if status \<noteq> [] \<and> lower status \<in> {''pending'', ''authorization_pending''}
                then True else False
            | None \<Rightarrow> False))"

definition parse_tokens :: "OAuthTokenPayload \<Rightarrow> OAuthError + OAuthTokens" where
  "parse_tokens payload =
     (if \<not> opt_truthy (p_access_token payload) \<or> \<not> opt_truthy (p_refresh_token payload)
         \<or> \<not> opt_truthy (p_id_token payload)
      then Inl \<lparr>oe_code = ''invalid_response'', oe_message = ''OAuth response missing tokens'',
                 oe_status_code = None\<rparr>
      else Inr \<lparr>access_token = the (p_access_token payload),
                 refresh_token = the (p_refresh_token payload),
                 id_token = the (p_id_token payload)\<rparr>)"

text \<open>
  \<open>exchange_device_token\<close>. The HTTP exchange is an input: \<open>resp_status\<close> is the response
  status and \<open>validated\<close> the result of \<open>OAuthTokenPayload.model_validate\<close> on the response
  body (\<open>None\<close> when validation fails). \<open>exchange_authorization_code\<close> is the delegated
  call, given the code, the verifier and the redirect URI. The result \<open>Inr None\<close> is the
  Python \<open>None\<close>, \<open>Inl\<close> a raised \<open>OAuthError\<close>.
\<close>

definition exchange_device_token ::
  "Settings \<Rightarrow> (string \<Rightarrow> string \<Rightarrow> string \<Rightarrow> OAuthError + OAuthTokens) \<Rightarrow> string option
     \<Rightarrow> int \<Rightarrow> OAuthTokenPayload option \<Rightarrow> OAuthError + OAuthTokens option" where
  "exchange_device_token settings exchange_authorization_code base_url resp_status validated =
     (case validated of
        None \<Rightarrow> Inl \<lparr>oe_code = ''invalid_response'', oe_message = ''Device auth response invalid'',
                     oe_status_code = None\<rparr>
      | Some payload_data \<Rightarrow>
          if resp_status \<in> {403, 404} then Inr None
          else if resp_status \<ge> 400 then
            (if is_pending_error payload_data then Inr None
             else Inl (oauth_error_from_payload payload_data resp_status))
          else if is_pending_error payload_data then Inr None
          else if opt_truthy (p_authorization_code payload_data) then
            (if \<not> opt_truthy (p_code_verifier payload_data)
             then Inl \<lparr>oe_code = ''invalid_response'',
                        oe_message = ''Device auth response missing code verifier'',
                        oe_status_code = None\<rparr>
             else (let redirect_uri = rstrip_slash (str_or base_url (auth_base_url settings))
                                        @ ''/deviceauth/callback''
                   in map_sum id Some
                        (exchange_authorization_code (the (p_authorization_code payload_data))
                           (the (p_code_verifier payload_data)) redirect_uri)))
          else map_sum id Some (parse_tokens payload_data))"

text \<open>The pending signal in the words of the specification.\<close>

definition pending_signal :: "OAuthTokenPayload \<Rightarrow> bool" where
  "pending_signal payload =
     (extract_error_code payload = Some ''authorization_pending''
      \<or> extract_error_code payload = Some ''slow_down''
      \<or> (\<exists>s. p_status payload = Some s \<and> (lower s = ''pending'' \<or> lower s = ''authorization_pending'')))"

text \<open>\<open>DeviceCodePayload\<close> and \<open>DeviceCode\<close>.\<close>

record DeviceCodePayload =
  dc_device_auth_id :: "string option"
  dc_user_code :: "string option"
  dc_interval :: "int option"
  dc_expires_in :: "int option"
  dc_expires_at :: "string option"

record DeviceCode =
  verification_url :: string
  user_code :: string
  device_auth_id :: string
  interval_seconds :: int
  expires_in_seconds :: int

text \<open>
  A \<open>datetime\<close>: the wall-clock reading in microseconds since the epoch and the UTC
  offset in microseconds, \<open>None\<close> for a naive value. \<open>datetime.fromisoformat\<close> is a
  parameter of the model; it returns \<open>None\<close> where Python raises \<open>ValueError\<close>.
\<close>

record datetime =
  wall_us :: int
  utcoffset_us :: "int option"

text \<open>\<open>expires_at.replace("Z", "+00:00")\<close>.\<close>

definition replace_Z :: "string \<Rightarrow> string" where
  "replace_Z s = concat (map (\<lambda>c. if c = CHR ''Z'' then ''+00:00'' else [c]) s)"

text \<open>\<open>_expires_in_seconds\<close>; \<open>now_us\<close> is \<open>datetime.now(timezone.utc)\<close> in microseconds.\<close>

definition expires_in_seconds_of ::
  "(string \<Rightarrow> datetime option) \<Rightarrow> int \<Rightarrow> string option \<Rightarrow> int option" where
  "expires_in_seconds_of fromisoformat now_us expires_at =
     (if \<not> opt_truthy expires_at then None
      else case fromisoformat (replace_Z (the expires_at)) of
             None \<Rightarrow> None
           | Some parsed \<Rightarrow>
               (let parsed = (if utcoffset_us parsed = None
                              then parsed\<lparr>utcoffset_us := Some 0\<rparr> else parsed);
                    delta = real_of_int (wall_us parsed - the (utcoffset_us parsed) - now_us)
                              / 1000000
                in if delta \<le> 0 then None else Some \<lfloor>delta\<rfloor>))"

text \<open>\<open>value or default\<close> for an optional integer: \<open>None\<close> and 0 are falsy.\<close>

definition int_or :: "int option \<Rightarrow> int \<Rightarrow> int" where
  "int_or v dflt = (case v of None \<Rightarrow> dflt | Some i \<Rightarrow> if i = 0 then dflt else i)"

text \<open>\<open>request_device_code\<close>; as for the token exchange, the response status and the
  validated payload are inputs.\<close>

definition request_device_code ::
  "Settings \<Rightarrow> (string \<Rightarrow> datetime option) \<Rightarrow> int \<Rightarrow> string option \<Rightarrow> int
     \<Rightarrow> DeviceCodePayload option \<Rightarrow> OAuthError + DeviceCode" where
  "request_device_code settings fromisoformat now_us base_url resp_status validated =
     (let auth_base = rstrip_slash (str_or base_url (auth_base_url settings)) in
      if resp_status \<ge> 400 then
        (if resp_status = 404
         then Inl \<lparr>oe_code = ''device_auth_unavailable'',
                    oe_message = ''Device code login is not enabled for this Codex server. ''
                                 @ ''Use the browser login or verify the server URL.'',
                    oe_status_code = Some resp_status\<rparr>
         else Inl \<lparr>oe_code = ''device_auth_failed'',
                    oe_message = ''Device code request failed with status '' @ str_int resp_status,
                    oe_status_code = Some resp_status\<rparr>)
      else case validated of
        None \<Rightarrow> Inl \<lparr>oe_code = ''invalid_response'', oe_message = ''Device auth response invalid'',
                     oe_status_code = None\<rparr>
      | Some payload_data \<Rightarrow>
          (let verification_url = auth_base @ ''/codex/device'';
               interval = (case dc_interval payload_data of Some i \<Rightarrow> i | None \<Rightarrow> 0);
               expires_in = int_or (dc_expires_in payload_data) 0;
               expires_in =
                 (if expires_in \<le> 0
                  then int_or (expires_in_seconds_of fromisoformat now_us
                                 (dc_expires_at payload_data)) 900
                  else expires_in)
           in if \<not> opt_truthy (dc_user_code payload_data)
                 \<or> \<not> opt_truthy (dc_device_auth_id payload_data)
              then Inl \<lparr>oe_code = ''invalid_response'',
                         oe_message = ''Device auth response missing fields'',
                         oe_status_code = None\<rparr>
              else Inr \<lparr>verification_url = verification_url,
                         user_code = the (dc_user_code payload_data),
                         device_auth_id = the (dc_device_auth_id payload_data),
                         interval_seconds = interval,
                         expires_in_seconds = expires_in\<rparr>))"

text \<open>The instant a parsed value denotes, in microseconds since the epoch (a naive value
  is read as UTC), and the time left until it, in seconds.\<close>

definition instant_us :: "datetime \<Rightarrow> int" where
  "instant_us parsed = wall_us parsed - (case utcoffset_us parsed of None \<Rightarrow> 0 | Some off \<Rightarrow> off)"

definition seconds_until :: "int \<Rightarrow> datetime \<Rightarrow> real" where
  "seconds_until now_us parsed = real_of_int (instant_us parsed - now_us) / 1000000"

text \<open>The time left until \<open>expires_at\<close>, in seconds, when the field is present, not empty
  and parsable.\<close>

definition remaining_seconds ::
  "(string \<Rightarrow> datetime option) \<Rightarrow> int \<Rightarrow> string option \<Rightarrow> real option" where
  "remaining_seconds fromisoformat now_us expires_at =
     (case expires_at of
        None \<Rightarrow> None
      | Some s \<Rightarrow> if s = [] then None
                  else map_option (seconds_until now_us) (fromisoformat (replace_Z s)))"

text \<open>The value the specification gives for \<open>expires_in_seconds\<close>: a positive
  \<open>expires_in\<close> is used; otherwise the whole seconds left until \<open>expires_at\<close>, and 900
  when \<open>expires_at\<close> is missing, unparsable or not in the future.\<close>

definition claimed_expires_in_seconds ::
  "(string \<Rightarrow> datetime option) \<Rightarrow> int \<Rightarrow> DeviceCodePayload \<Rightarrow> int" where
  "claimed_expires_in_seconds fromisoformat now_us pd =
     (if (case dc_expires_in pd of Some e \<Rightarrow> e > 0 | None \<Rightarrow> False)
      then the (dc_expires_in pd)
      else case remaining_seconds fromisoformat now_us (dc_expires_at pd) of
             Some d \<Rightarrow> if d > 0 then \<lfloor>d\<rfloor> else 900
           | None \<Rightarrow> 900)"

definition example_fromisoformat :: "string \<Rightarrow> datetime option" where
  "example_fromisoformat s =
     (if s = ''1970-01-01T00:00:01.500000+00:00''
      then Some \<lparr>wall_us = 1500000, utcoffset_us = Some 0\<rparr>
      else if s = ''1970-01-01T00:10:01''
      then Some \<lparr>wall_us = 601000000, utcoffset_us = None\<rparr>
      else None)"

definition example_settings :: Settings where
  "example_settings =
     \<lparr>auth_base_url = ''https://auth.openai.com/'', oauth_client_id = ''app_X'',
      oauth_redirect_uri = ''http://localhost:1455/auth/callback'',
      oauth_scope = ''openid profile email''\<rparr>"

definition example_payload :: "json \<Rightarrow> string option \<Rightarrow> OAuthTokenPayload" where
  "example_payload err st =
     \<lparr>p_access_token = None, p_refresh_token = None, p_id_token = None,
      p_authorization_code = None, p_code_verifier = None, p_error = err,
      p_error_description = None, p_message = None, p_error_code = None, p_code = None,
      p_status = st\<rparr>"

section \<open>Properties of plan type normalisation\<close>

lemma strip_all_space: "list_all is_space s \<Longrightarrow> strip s = []"
  by (auto simp: strip_def list_all_iff dest: set_dropWhileD)

lemma strip_Nil: "strip [] = []"
  by (simp add: strip_def)

text \<open>
  Claim C7. For every input string, \<open>canonicalize_account_plan_type\<close> trims it and
  lower-cases it; it returns the lower-cased value when that is one of free, plus, pro,
  team, business, enterprise, edu, and the trimmed original otherwise. \<open>PRO\<close> becomes
  \<open>pro\<close>, \<open>education\<close> stays \<open>education\<close>, and an empty or whitespace-only input
  gives \<open>None\<close>.
\<close>

theorem canonicalize_account_plan_type_spec:
  "canonicalize_account_plan_type (Some s) =
     (if strip s = [] then None
      else if lower (strip s) \<in> {''free'', ''plus'', ''pro'', ''team'', ''business'',
                                     ''enterprise'', ''edu''}
           then Some (lower (strip s))
           else Some (strip s))
   \<and> canonicalize_account_plan_type (Some ''PRO'') = Some ''pro''
   \<and> canonicalize_account_plan_type (Some ''education'') = Some ''education''
   \<and> canonicalize_account_plan_type (Some '''') = None
   \<and> (if list_all is_space s then canonicalize_account_plan_type (Some s) = None else True)"
proof -
  have general: "canonicalize_account_plan_type (Some s) =
     (if strip s = [] then None
      else if lower (strip s) \<in> {''free'', ''plus'', ''pro'', ''team'', ''business'',
                                     ''enterprise'', ''edu''}
           then Some (lower (strip s))
           else Some (strip s))"
    by (simp add: canonicalize_account_plan_type_def clean_plan_type_def
        ACCOUNT_PLAN_TYPES_def Let_def)
  have pro: "canonicalize_account_plan_type (Some ''PRO'') = Some ''pro''"
    by (simp add: canonicalize_account_plan_type_def clean_plan_type_def
        ACCOUNT_PLAN_TYPES_def Let_def strip_def is_space_def lower_def lower_char_def)
  have education: "canonicalize_account_plan_type (Some ''education'') = Some ''education''"
    by (simp add: canonicalize_account_plan_type_def clean_plan_type_def
        ACCOUNT_PLAN_TYPES_def Let_def strip_def is_space_def lower_def lower_char_def)
  have empty: "canonicalize_account_plan_type (Some '''') = None"
    by (simp add: canonicalize_account_plan_type_def clean_plan_type_def strip_Nil)
  have blank: "list_all is_space s \<Longrightarrow> canonicalize_account_plan_type (Some s) = None"
    by (simp add: canonicalize_account_plan_type_def clean_plan_type_def strip_all_space)
  from general pro education empty blank show ?thesis
    by simp
qed

theorem canonicalize_account_plan_type_spec_witness:
  "list_all is_space ''  '' \<and> canonicalize_account_plan_type (Some ''  '') = None
   \<and> canonicalize_account_plan_type (Some '' Team '') = Some ''team''
   \<and> canonicalize_account_plan_type (Some '' Education'') = Some ''Education''"
  using canonicalize_account_plan_type_spec [of "''  ''"]
    canonicalize_account_plan_type_spec [of "'' Team ''"]
    canonicalize_account_plan_type_spec [of "'' Education''"]
  by (simp add: strip_def is_space_def lower_def lower_char_def)

section \<open>Properties of the request coercion\<close>

lemma partition_messages_objects:
  "list_all is_object ms \<Longrightarrow>
   partition_messages ms parts inputs =
     Inr (parts @ filter nonempty (map message_text (filter is_instruction_message ms)),
          inputs @ filter (\<lambda>m. \<not> is_instruction_message m) ms)"
proof (induction ms arbitrary: parts inputs)
  case Nil
  then show ?case by simp
next
  case (Cons m ms)
  from Cons.prems have obj: "is_object m" and rest: "list_all is_object ms"
    by simp_all
  from obj obtain md where m: "m = JObj md"
    by (cases m) (simp_all add: is_object_def)
  show ?case
  proof (cases "message_role md \<in> {Some ''system'', Some ''developer''}")
    case True
    then have instr: "is_instruction_message m"
      by (simp add: is_instruction_message_def m)
    show ?thesis
    proof (cases "content_to_text (py_get md ''content'')")
      case None
      then have "message_text m = []" by (simp add: message_text_def m)
      with None True instr show ?thesis
        using Cons.IH [OF rest] by (simp add: m nonempty_def)
    next
      case (Some t)
      then have "message_text m = t" by (simp add: message_text_def m)
      with Some True instr show ?thesis
        using Cons.IH [OF rest] by (simp add: m nonempty_def)
    qed
  next
    case False
    then have "\<not> is_instruction_message m"
      by (simp add: is_instruction_message_def m)
    with False show ?thesis
      using Cons.IH [OF rest] by (simp add: m)
  qed
qed

lemma py_get_update: "py_get (AList.update k v d) k' = (if k' = k then v else py_get d k')"
  by (simp add: py_get_def update_conv')

lemma py_get_delete: "py_get (AList.delete k d) k' = (if k' = k then JNull else py_get d k')"
  by (simp add: py_get_def delete_conv')

lemma has_key_update: "has_key (AList.update k v d) k' = (k' = k \<or> has_key d k')"
  by (simp add: has_key_def update_conv')

lemma has_key_delete: "has_key (AList.delete k d) k' = (k' \<noteq> k \<and> has_key d k')"
  by (simp add: has_key_def delete_conv')

text \<open>
  Claim C3. When a chat request carries both a non-empty \<open>input\<close> (anything but \<open>None\<close>
  and the empty list) and \<open>messages\<close>, coercion fails with a validation error. Otherwise,
  for every list of message objects, the text of the messages with role \<open>system\<close> or
  \<open>developer\<close> is joined with newlines, empty parts dropped, into \<open>instructions\<close>, after
  any existing non-empty instructions and a newline; the messages of other roles become
  \<open>input\<close> in their original order.
\<close>

theorem coerce_messages_payload_spec:
  "(has_key d ''messages'' \<and> py_get d ''input'' \<notin> {JNull, JList []} \<longrightarrow>
      (\<exists>msg. coerce_messages_payload (JObj d) = Inl (ValueError msg)))
   \<and> (has_key d ''messages'' \<and> py_get d ''input'' \<in> {JNull, JList []}
        \<and> py_get d ''messages'' = JList messages \<and> list_all is_object messages \<longrightarrow>
      (\<exists>r. coerce_messages_payload (JObj d) = Inr (JObj r)
         \<and> py_get r ''instructions'' = JStr (expected_instructions (py_get d ''instructions'') messages)
         \<and> py_get r ''input'' = JList (filter (\<lambda>m. \<not> is_instruction_message m) messages)
         \<and> \<not> has_key r ''messages''))"
proof (intro conjI impI)
  assume "has_key d ''messages'' \<and> py_get d ''input'' \<notin> {JNull, JList []}"
  then show "\<exists>msg. coerce_messages_payload (JObj d) = Inl (ValueError msg)"
    by (simp add: coerce_messages_payload_def)
next
  assume a: "has_key d ''messages'' \<and> py_get d ''input'' \<in> {JNull, JList []}
        \<and> py_get d ''messages'' = JList messages \<and> list_all is_object messages"
  then have part: "partition_messages messages [] [] =
     Inr (filter nonempty (map message_text (filter is_instruction_message messages)),
          filter (\<lambda>m. \<not> is_instruction_message m) messages)"
    using partition_messages_objects [of messages "[]" "[]"] by simp
  show "\<exists>r. coerce_messages_payload (JObj d) = Inr (JObj r)
         \<and> py_get r ''instructions'' = JStr (expected_instructions (py_get d ''instructions'') messages)
         \<and> py_get r ''input'' = JList (filter (\<lambda>m. \<not> is_instruction_message m) messages)
         \<and> \<not> has_key r ''messages''"
    using a part
    by (cases "py_get d ''instructions''")
      (auto simp: coerce_messages_payload_def Let_def py_get_update py_get_delete
        has_key_update has_key_delete expected_instructions_def merge_instructions_def)
qed

theorem coerce_messages_payload_spec_witness:
  "has_key [(''input'', JList [JStr ''x'']), (''messages'', JList [])] ''messages''
   \<and> py_get [(''input'', JList [JStr ''x'']), (''messages'', JList [])] ''input''
        \<notin> {JNull, JList []}
   \<and> (\<exists>msg. coerce_messages_payload
                (JObj [(''input'', JList [JStr ''x'']), (''messages'', JList [])])
              = Inl (ValueError msg))
   \<and> list_all is_object
        [JObj [(''role'', JStr ''system''), (''content'', JStr ''sys'')],
         JObj [(''role'', JStr ''user''), (''content'', JStr ''hi'')]]
   \<and> (\<exists>r. coerce_messages_payload
              (JObj [(''model'', JStr ''gpt-5.1''),
                     (''messages'', JList
                        [JObj [(''role'', JStr ''system''), (''content'', JStr ''sys'')],
                         JObj [(''role'', JStr ''user''), (''content'', JStr ''hi'')]])])
            = Inr (JObj r)
          \<and> py_get r ''instructions'' = JStr ''sys''
          \<and> py_get r ''input'' = JList [JObj [(''role'', JStr ''user''), (''content'', JStr ''hi'')]]
          \<and> \<not> has_key r ''messages'')"
  using coerce_messages_payload_spec
      [of "[(''input'', JList [JStr ''x'']), (''messages'', JList [])]" "[]"]
    coerce_messages_payload_spec
      [of "[(''model'', JStr ''gpt-5.1''),
            (''messages'', JList
               [JObj [(''role'', JStr ''system''), (''content'', JStr ''sys'')],
                JObj [(''role'', JStr ''user''), (''content'', JStr ''hi'')]])]"
          "[JObj [(''role'', JStr ''system''), (''content'', JStr ''sys'')],
            JObj [(''role'', JStr ''user''), (''content'', JStr ''hi'')]]"]
  by (simp add: has_key_def py_get_def is_object_def expected_instructions_def
      is_instruction_message_def message_text_def message_role_def content_to_text_def
      nonempty_def)

section \<open>Properties of validation and of the outbound payload\<close>

lemma coerce_keeps_store:
  "coerce_messages_payload (JObj d) = Inr j \<Longrightarrow> \<exists>r. j = JObj r \<and> map_of r ''store'' = map_of d ''store''"
  by (auto simp: coerce_messages_payload_def Let_def update_conv' delete_conv'
      split: if_splits json.splits sum.splits prod.splits)

lemma validate_fields_store_true:
  "map_of d ''store'' = Some (JBool True) \<Longrightarrow> \<exists>msg. validate_fields d = Inl (ValidationError msg)"
  by (simp add: validate_fields_def Let_def field_or_def v_bool_def)

text \<open>
  Claim C2. Validating a Responses request whose \<open>store\<close> field is true fails with a
  validation error, and the outbound payload that \<open>to_payload\<close> produces for a
  successfully validated request has no \<open>max_output_tokens\<close> key.
\<close>

theorem store_guard:
  "(map_of d ''store'' = Some (JBool True) \<longrightarrow>
      (\<exists>msg. model_validate (JObj d) = Inl (ValidationError msg)))
   \<and> (model_validate data = Inr r \<longrightarrow> ''max_output_tokens'' \<notin> fst ` set (to_payload r))"
proof (intro conjI impI)
  assume st: "map_of d ''store'' = Some (JBool True)"
  show "\<exists>msg. model_validate (JObj d) = Inl (ValidationError msg)"
  proof (cases "coerce_messages_payload (JObj d)")
    case (Inl e)
    then show ?thesis
      by (cases e) (simp_all add: model_validate_def)
  next
    case (Inr j)
    from coerce_keeps_store [OF Inr] st obtain r where "j = JObj r"
      and "map_of r ''store'' = Some (JBool True)" by auto
    with Inr validate_fields_store_true [of r] show ?thesis
      by (simp add: model_validate_def)
  qed
next
  show "''max_output_tokens'' \<notin> fst ` set (to_payload r)"
    by (simp add: to_payload_def Let_def strip_unsupported_fields_def
        UNSUPPORTED_UPSTREAM_FIELDS_def delete_notin_dom)
qed

theorem store_guard_witness:
  "map_of [(''model'', JStr ''gpt-5.1''), (''store'', JBool True)] ''store'' = Some (JBool True)
   \<and> (\<exists>msg. model_validate (JObj [(''model'', JStr ''gpt-5.1''), (''store'', JBool True)])
              = Inl (ValidationError msg))
   \<and> (\<exists>r. model_validate
              (JObj [(''model'', JStr ''gpt-5.1''), (''max_output_tokens'', JInt 32000)]) = Inr r
          \<and> ''max_output_tokens'' \<notin> fst ` set (to_payload r))"
proof -
  obtain r where r: "model_validate
      (JObj [(''model'', JStr ''gpt-5.1''), (''max_output_tokens'', JInt 32000)]) = Inr r"
    by (simp add: model_validate_def coerce_messages_payload_def has_key_def
        validate_fields_def field_or_def Let_def)
  from r store_guard [of "[(''model'', JStr ''gpt-5.1''), (''store'', JBool True)]"
      "JObj [(''model'', JStr ''gpt-5.1''), (''max_output_tokens'', JInt 32000)]" r]
  show ?thesis by simp
qed

section \<open>Properties of the auth manager\<close>

text \<open>
  Claim C4. When the token refresh of \<open>refresh_account\<close> fails with a permanent error,
  the account's status becomes \<open>DEACTIVATED\<close> with the reason that
  \<open>PERMANENT_FAILURE_CODES\<close> gives for the error code (the error message when the code is
  not in the table), the status is persisted with \<open>update_status\<close>, and the error is
  raised again. When the failure is not permanent the error is raised again and the
  account is unchanged.
\<close>

theorem refresh_account_failure:
  "refresh_access_token env (decrypt env (refresh_token_encrypted account)) = Inl exc \<Longrightarrow>
   (is_permanent exc \<longrightarrow>
      refresh_account env account repo =
        (Some exc,
         account\<lparr>acc_status := DEACTIVATED,
                 acc_deactivation_reason :=
                   Some (case PERMANENT_FAILURE_CODES env (err_code exc) of
                           Some r \<Rightarrow> r | None \<Rightarrow> err_message exc)\<rparr>,
         repo @ [UpdateStatus (acc_id account) DEACTIVATED
                   (Some (case PERMANENT_FAILURE_CODES env (err_code exc) of
                            Some r \<Rightarrow> r | None \<Rightarrow> err_message exc))]))
   \<and> (\<not> is_permanent exc \<longrightarrow> refresh_account env account repo = (Some exc, account, repo))"
  by (simp add: refresh_account_def Let_def)

theorem refresh_account_failure_witness:
  "refresh_account
     (example_env \<lparr>err_code = ''refresh_token_expired'', err_message = ''expired'',
                    is_permanent = True\<rparr>) example_account []
   = (Some \<lparr>err_code = ''refresh_token_expired'', err_message = ''expired'', is_permanent = True\<rparr>,
      example_account\<lparr>acc_status := DEACTIVATED,
                      acc_deactivation_reason := Some ''Refresh token expired''\<rparr>,
      [UpdateStatus ''acc_one'' DEACTIVATED (Some ''Refresh token expired'')])
   \<and> refresh_account
     (example_env \<lparr>err_code = ''invalid_grant'', err_message = ''grant'',
                    is_permanent = True\<rparr>) example_account []
   = (Some \<lparr>err_code = ''invalid_grant'', err_message = ''grant'', is_permanent = True\<rparr>,
      example_account\<lparr>acc_status := DEACTIVATED,
                      acc_deactivation_reason := Some ''grant''\<rparr>,
      [UpdateStatus ''acc_one'' DEACTIVATED (Some ''grant'')])
   \<and> refresh_account
     (example_env \<lparr>err_code = ''timeout'', err_message = ''timed out'',
                    is_permanent = False\<rparr>) example_account []
   = (Some \<lparr>err_code = ''timeout'', err_message = ''timed out'', is_permanent = False\<rparr>,
      example_account, [])"
  using refresh_account_failure
      [of "example_env \<lparr>err_code = ''refresh_token_expired'', err_message = ''expired'',
                    is_permanent = True\<rparr>" example_account
          "\<lparr>err_code = ''refresh_token_expired'', err_message = ''expired'', is_permanent = True\<rparr>" "[]"]
    refresh_account_failure
      [of "example_env \<lparr>err_code = ''invalid_grant'', err_message = ''grant'',
                    is_permanent = True\<rparr>" example_account
          "\<lparr>err_code = ''invalid_grant'', err_message = ''grant'', is_permanent = True\<rparr>" "[]"]
    refresh_account_failure
      [of "example_env \<lparr>err_code = ''timeout'', err_message = ''timed out'',
                    is_permanent = False\<rparr>" example_account
          "\<lparr>err_code = ''timeout'', err_message = ''timed out'', is_permanent = False\<rparr>" "[]"]
  by (simp add: example_env_def example_account_def)

section \<open>Properties of the authorization URL\<close>

lemma split_aux_no_space:
  "list_all (\<lambda>c. \<not> is_space c) w \<Longrightarrow>
   split_aux w cur = (if cur @ w = [] then [] else [cur @ w])"
  by (induction w arbitrary: cur) auto

lemma split_aux_last_word:
  "is_space sp \<Longrightarrow> list_all (\<lambda>c. \<not> is_space c) w \<Longrightarrow> w \<noteq> [] \<Longrightarrow>
   w \<in> set (split_aux (xs @ sp # w) cur)"
  by (induction xs arbitrary: cur) (auto simp: split_aux_no_space)

lemma ensure_offline_access_present:
  "''offline_access'' \<in> set (split (ensure_offline_access scope))"
proof (cases "''offline_access'' \<in> set (split scope)")
  case True
  then show ?thesis by (simp add: ensure_offline_access_def)
next
  case False
  have "''offline_access'' \<in> set (split_aux (scope @ CHR '' '' # ''offline_access'') [])"
    by (rule split_aux_last_word) (simp_all add: is_space_def)
  with False show ?thesis
    by (simp add: ensure_offline_access_def split_def)
qed

lemma quote_keys:
  "quote ''response_type'' = ''response_type''"
  "quote ''code'' = ''code''"
  "quote ''client_id'' = ''client_id''"
  "quote ''redirect_uri'' = ''redirect_uri''"
  "quote ''scope'' = ''scope''"
  "quote ''code_challenge'' = ''code_challenge''"
  "quote ''code_challenge_method'' = ''code_challenge_method''"
  "quote ''S256'' = ''S256''"
  "quote ''state'' = ''state''"
  "quote ''id_token_add_organizations'' = ''id_token_add_organizations''"
  "quote ''true'' = ''true''"
  "quote ''codex_cli_simplified_flow'' = ''codex_cli_simplified_flow''"
  "quote ''originator'' = ''originator''"
  "quote ''codex_cli_rs'' = ''codex_cli_rs''"
  by (simp_all add: quote_def quote_char_def unreserved_def)

lemma build_authorization_url_shape:
  "build_authorization_url settings state code_challenge base_url client_id redirect_uri scope =
     rstrip_slash (str_or base_url (auth_base_url settings))
       @ ''/oauth/authorize?response_type=code&client_id''
       @ ''='' @ quote (str_or client_id (oauth_client_id settings))
       @ ''&redirect_uri='' @ quote (str_or redirect_uri (oauth_redirect_uri settings))
       @ ''&scope='' @ quote (authorization_scope settings scope)
       @ ''&code_challenge='' @ quote code_challenge
       @ ''&code_challenge_method=S256&state='' @ quote state
       @ ''&id_token_add_organizations=true&codex_cli_simplified_flow=true&originator=codex_cli_rs''"
  by (simp add: build_authorization_url_def Let_def urlencode_def quote_keys)

section \<open>Properties of the device token exchange\<close>

lemma lower_Nil_iff: "lower s = [] \<longleftrightarrow> s = []"
  by (simp add: lower_def)

lemma is_pending_error_iff: "is_pending_error payload = pending_signal payload"
  by (cases "p_status payload")
     (auto simp: is_pending_error_def pending_signal_def lower_def)

lemma map_sum_Some_ne_None: "map_sum id Some x \<noteq> Inr None"
  by (cases x) simp_all

text \<open>
  Claim C6. For a response whose body validates as an \<open>OAuthTokenPayload\<close>,
  \<open>exchange_device_token\<close> returns \<open>None\<close> exactly when the HTTP status is 403 or 404 or
  the payload carries a pending signal: an extracted error code \<open>authorization_pending\<close>
  or \<open>slow_down\<close>, or a status field that is \<open>pending\<close> or \<open>authorization_pending\<close> in
  lower case. Any other response with status at least 400 raises the structured OAuth
  error built from the payload and the status.
\<close>

theorem exchange_device_token_none_iff:
  "(exchange_device_token settings exchange_authorization_code base_url resp_status (Some payload)
      = Inr None
    \<longleftrightarrow> resp_status = 403 \<or> resp_status = 404 \<or> pending_signal payload)
   \<and> (resp_status \<ge> 400 \<and> resp_status \<noteq> 403 \<and> resp_status \<noteq> 404 \<and> \<not> pending_signal payload
       \<longrightarrow> exchange_device_token settings exchange_authorization_code base_url resp_status
             (Some payload)
           = Inl (oauth_error_from_payload payload resp_status)
         \<and> oe_status_code (oauth_error_from_payload payload resp_status) = Some resp_status)"
  by (auto simp: exchange_device_token_def is_pending_error_iff map_sum_Some_ne_None
      oauth_error_from_payload_def Let_def)

section \<open>Properties of the device code request\<close>

lemma expires_in_seconds_of_remaining:
  "expires_in_seconds_of fromisoformat now_us expires_at =
     (case remaining_seconds fromisoformat now_us expires_at of
        None \<Rightarrow> None
      | Some d \<Rightarrow> if d \<le> 0 then None else Some \<lfloor>d\<rfloor>)"
  by (cases expires_at; cases "fromisoformat (replace_Z (the expires_at))")
     (auto simp: expires_in_seconds_of_def remaining_seconds_def opt_truthy_def
       seconds_until_def instant_us_def Let_def split: option.splits)

lemma floor_below_one: "0 < d \<Longrightarrow> \<not> 1 \<le> d \<Longrightarrow> \<lfloor>d::real\<rfloor> = 0"
  by (simp add: floor_eq_iff)

lemma floor_from_one: "1 \<le> d \<Longrightarrow> \<lfloor>d::real\<rfloor> \<noteq> 0"
proof -
  assume "1 \<le> d"
  then have "1 \<le> \<lfloor>d\<rfloor>" by (simp add: le_floor_iff)
  then show ?thesis by linarith
qed

lemma expires_in_fallback:
  "int_or (expires_in_seconds_of fromisoformat now_us expires_at) 900 =
     (case remaining_seconds fromisoformat now_us expires_at of
        Some d \<Rightarrow> if 1 \<le> d then \<lfloor>d\<rfloor> else 900
      | None \<Rightarrow> 900)"
proof (cases "remaining_seconds fromisoformat now_us expires_at")
  case None
  then show ?thesis by (simp add: expires_in_seconds_of_remaining int_or_def)
next
  case (Some d)
  consider "d \<le> 0" | "0 < d" "\<not> 1 \<le> d" | "1 \<le> d" by linarith
  then show ?thesis
  proof cases
    case 1
    with Some show ?thesis by (simp add: expires_in_seconds_of_remaining int_or_def)
  next
    case 2
    with Some floor_below_one [of d] show ?thesis
      by (simp add: expires_in_seconds_of_remaining int_or_def)
  next
    case 3
    with Some floor_from_one [of d] show ?thesis
      by (simp add: expires_in_seconds_of_remaining int_or_def)
  qed
qed

text \<open>
  Claim C10, amended. On a successful response \<open>request_device_code\<close> sets
  \<open>interval_seconds\<close> to 0 when the payload has no interval. When \<open>expires_in\<close> is absent
  or not positive, \<open>expires_in_seconds\<close> is the number of whole seconds left until
  \<open>expires_at\<close> if that is at least one, and 900 when \<open>expires_at\<close> is missing, empty,
  unparsable or less than one second in the future.
\<close>

theorem request_device_code_defaults:
  "resp_status < 400 \<Longrightarrow> opt_truthy (dc_user_code pd) \<Longrightarrow> opt_truthy (dc_device_auth_id pd) \<Longrightarrow>
   \<exists>dc. request_device_code settings fromisoformat now_us base_url resp_status (Some pd) = Inr dc
     \<and> interval_seconds dc = (case dc_interval pd of None \<Rightarrow> 0 | Some i \<Rightarrow> i)
     \<and> expires_in_seconds dc =
         (if (case dc_expires_in pd of Some e \<Rightarrow> e > 0 | None \<Rightarrow> False)
          then the (dc_expires_in pd)
          else case remaining_seconds fromisoformat now_us (dc_expires_at pd) of
                 Some d \<Rightarrow> if 1 \<le> d then \<lfloor>d\<rfloor> else 900
               | None \<Rightarrow> 900)"
proof -
  assume ok: "resp_status < 400" "opt_truthy (dc_user_code pd)" "opt_truthy (dc_device_auth_id pd)"
  have exp: "(if int_or (dc_expires_in pd) 0 \<le> 0
              then int_or (expires_in_seconds_of fromisoformat now_us (dc_expires_at pd)) 900
              else int_or (dc_expires_in pd) 0) =
         (if (case dc_expires_in pd of Some e \<Rightarrow> e > 0 | None \<Rightarrow> False)
          then the (dc_expires_in pd)
          else case remaining_seconds fromisoformat now_us (dc_expires_at pd) of
                 Some d \<Rightarrow> if 1 \<le> d then \<lfloor>d\<rfloor> else 900
               | None \<Rightarrow> 900)"
    unfolding expires_in_fallback by (cases "dc_expires_in pd") (auto simp: int_or_def)
  from ok show ?thesis
    by (simp add: request_device_code_def Let_def exp)
qed

theorem request_device_code_defaults_witness:
  "(200::int) < 400
   \<and> (\<exists>dc. request_device_code example_settings example_fromisoformat 1000000 None 200
          (Some \<lparr>dc_device_auth_id = Some ''d'', dc_user_code = Some ''u'', dc_interval = None,
                  dc_expires_in = Some 0, dc_expires_at = Some ''1970-01-01T00:10:01''\<rparr>) = Inr dc
        \<and> interval_seconds dc = 0 \<and> expires_in_seconds dc = 600)"
  using request_device_code_defaults [of 200
      "\<lparr>dc_device_auth_id = Some ''d'', dc_user_code = Some ''u'', dc_interval = None,
        dc_expires_in = Some 0, dc_expires_at = Some ''1970-01-01T00:10:01''\<rparr>"
      example_settings example_fromisoformat 1000000 None]
  by (simp add: opt_truthy_def remaining_seconds_def replace_Z_def example_fromisoformat_def
      seconds_until_def instant_us_def)

text \<open>
  With \<open>expires_at\<close> half a second in the future the whole seconds left are 0, and the
  result is 900.
\<close>

theorem request_device_code_subsecond_counterexample:
  "map_sum id expires_in_seconds
     (request_device_code example_settings example_fromisoformat 1000000 None 200
        (Some \<lparr>dc_device_auth_id = Some ''d'', dc_user_code = Some ''u'', dc_interval = None,
                dc_expires_in = None, dc_expires_at = Some ''1970-01-01T00:00:01.500000Z''\<rparr>))
     = Inr 900
   \<and> remaining_seconds example_fromisoformat 1000000 (Some ''1970-01-01T00:00:01.500000Z'')
       = Some (1 / 2)
   \<and> claimed_expires_in_seconds example_fromisoformat 1000000
        \<lparr>dc_device_auth_id = Some ''d'', dc_user_code = Some ''u'', dc_interval = None,
         dc_expires_in = None, dc_expires_at = Some ''1970-01-01T00:00:01.500000Z''\<rparr> = 0"
  by (simp add: request_device_code_def example_settings_def example_fromisoformat_def
      expires_in_seconds_of_def replace_Z_def opt_truthy_def int_or_def str_or_def
      rstrip_slash_def Let_def claimed_expires_in_seconds_def remaining_seconds_def
      seconds_until_def instant_us_def)

text \<open>
  An explicit scope argument is used as it is: with \<open>scope = "openid"\<close> the scope
  parameter of the URL is \<open>openid\<close>.
\<close>

theorem build_authorization_url_explicit_scope_counterexample:
  "build_authorization_url example_settings ''st'' ''ch'' None None None (Some ''openid'')
     = ''https://auth.openai.com/oauth/authorize?response_type=code&client_id=app_X''
       @ ''&redirect_uri=http%3A%2F%2Flocalhost%3A1455%2Fauth%2Fcallback''
       @ ''&scope=openid&code_challenge=ch&code_challenge_method=S256&state=st''
       @ ''&id_token_add_organizations=true&codex_cli_simplified_flow=true''
       @ ''&originator=codex_cli_rs''
   \<and> authorization_scope example_settings (Some ''openid'') = ''openid''
   \<and> ''offline_access'' \<notin> set (split ''openid'')"
  by (simp add: build_authorization_url_shape example_settings_def str_or_def rstrip_slash_def
      authorization_scope_def quote_def quote_char_def unreserved_def hex_digit_def
      split_def is_space_def)

text \<open>
  Claim C5, amended. The URL that \<open>build_authorization_url\<close> produces carries the scope
  \<open>authorization_scope\<close> percent-encoded in its \<open>scope\<close> parameter. When no scope
  argument, or an empty one, is passed, that scope is the configured scope passed through
  \<open>_ensure_offline_access\<close>, and \<open>offline_access\<close> is one of its words. An explicit
  non-empty scope argument is used as given.
\<close>

theorem build_authorization_url_scope:
  "build_authorization_url settings state code_challenge base_url client_id redirect_uri scope =
     rstrip_slash (str_or base_url (auth_base_url settings))
       @ ''/oauth/authorize?response_type=code&client_id=''
       @ quote (str_or client_id (oauth_client_id settings))
       @ ''&redirect_uri='' @ quote (str_or redirect_uri (oauth_redirect_uri settings))
       @ ''&scope='' @ quote (authorization_scope settings scope)
       @ ''&code_challenge='' @ quote code_challenge
       @ ''&code_challenge_method=S256&state='' @ quote state
       @ ''&id_token_add_organizations=true&codex_cli_simplified_flow=true&originator=codex_cli_rs''
   \<and> (scope = None \<or> scope = Some [] \<longrightarrow>
        authorization_scope settings scope = ensure_offline_access (oauth_scope settings)
        \<and> ''offline_access'' \<in> set (split (authorization_scope settings scope)))
   \<and> (\<forall>s. scope = Some s \<and> s \<noteq> [] \<longrightarrow> authorization_scope settings scope = s)"
proof (intro conjI)
  show "build_authorization_url settings state code_challenge base_url client_id redirect_uri scope =
     rstrip_slash (str_or base_url (auth_base_url settings))
       @ ''/oauth/authorize?response_type=code&client_id=''
       @ quote (str_or client_id (oauth_client_id settings))
       @ ''&redirect_uri='' @ quote (str_or redirect_uri (oauth_redirect_uri settings))
       @ ''&scope='' @ quote (authorization_scope settings scope)
       @ ''&code_challenge='' @ quote code_challenge
       @ ''&code_challenge_method=S256&state='' @ quote state
       @ ''&id_token_add_organizations=true&codex_cli_simplified_flow=true&originator=codex_cli_rs''"
    by (simp add: build_authorization_url_shape)
next
  show "scope = None \<or> scope = Some [] \<longrightarrow>
        authorization_scope settings scope = ensure_offline_access (oauth_scope settings)
        \<and> ''offline_access'' \<in> set (split (authorization_scope settings scope))"
    using ensure_offline_access_present [of "oauth_scope settings"]
    by (auto simp: authorization_scope_def)
next
  show "\<forall>s. scope = Some s \<and> s \<noteq> [] \<longrightarrow> authorization_scope settings scope = s"
    by (simp add: authorization_scope_def)
qed

theorem build_authorization_url_scope_witness:
  "build_authorization_url example_settings ''st'' ''ch'' None None None None
     = ''https://auth.openai.com/oauth/authorize?response_type=code&client_id=app_X''
       @ ''&redirect_uri=http%3A%2F%2Flocalhost%3A1455%2Fauth%2Fcallback''
       @ ''&scope=openid%20profile%20email%20offline_access''
       @ ''&code_challenge=ch&code_challenge_method=S256&state=st''
       @ ''&id_token_add_organizations=true&codex_cli_simplified_flow=true''
       @ ''&originator=codex_cli_rs''
   \<and> authorization_scope example_settings None = ''openid profile email offline_access''
   \<and> ''offline_access'' \<in> set (split (authorization_scope example_settings None))
   \<and> authorization_scope example_settings (Some ''openid email'') = ''openid email''"
  using build_authorization_url_scope [of example_settings "''st''" "''ch''" None None None None]
    build_authorization_url_scope [of example_settings "''st''" "''ch''" None None None
      "Some ''openid email''"]
  by (simp add: example_settings_def str_or_def rstrip_slash_def ensure_offline_access_def
      quote_def quote_char_def unreserved_def hex_digit_def split_def is_space_def)

theorem exchange_device_token_none_iff_witness:
  "exchange_device_token example_settings (\<lambda>c v r. Inr \<lparr>access_token = c, refresh_token = v, id_token = r\<rparr>)
      None 400 (Some (example_payload (JStr ''authorization_pending'') None)) = Inr None
   \<and> exchange_device_token example_settings (\<lambda>c v r. Inr \<lparr>access_token = c, refresh_token = v, id_token = r\<rparr>)
      None 200 (Some (example_payload JNull (Some ''Pending''))) = Inr None
   \<and> exchange_device_token example_settings (\<lambda>c v r. Inr \<lparr>access_token = c, refresh_token = v, id_token = r\<rparr>)
      None 404 (Some (example_payload JNull None)) = Inr None
   \<and> (400::int) \<le> 400
   \<and> \<not> pending_signal (example_payload (JObj [(''code'', JStr ''access_denied'')]) None)
   \<and> exchange_device_token example_settings (\<lambda>c v r. Inr \<lparr>access_token = c, refresh_token = v, id_token = r\<rparr>)
      None 400 (Some (example_payload (JObj [(''code'', JStr ''access_denied'')]) None))
      = Inl \<lparr>oe_code = ''access_denied'', oe_message = ''OAuth request failed (400)'',
              oe_status_code = Some 400\<rparr>"
  using exchange_device_token_none_iff [of example_settings
      "\<lambda>c v r. Inr \<lparr>access_token = c, refresh_token = v, id_token = r\<rparr>" None 400
      "example_payload (JStr ''authorization_pending'') None"]
    exchange_device_token_none_iff [of example_settings
      "\<lambda>c v r. Inr \<lparr>access_token = c, refresh_token = v, id_token = r\<rparr>" None 200
      "example_payload JNull (Some ''Pending'')"]
    exchange_device_token_none_iff [of example_settings
      "\<lambda>c v r. Inr \<lparr>access_token = c, refresh_token = v, id_token = r\<rparr>" None 404
      "example_payload JNull None"]
    exchange_device_token_none_iff [of example_settings
      "\<lambda>c v r. Inr \<lparr>access_token = c, refresh_token = v, id_token = r\<rparr>" None 400
      "example_payload (JObj [(''code'', JStr ''access_denied'')]) None"]
  by (simp add: pending_signal_def example_payload_def extract_error_code_def
      extract_error_message_def oauth_error_from_payload_def opt_truthy_def truthy_def
      py_get_def lower_def lower_char_def str_int_def dec_digits.simps digit_char_def Let_def)

end
